theory Spec2Isabelle
  imports Main
begin

section \<open>Python values, exceptions and the external collaborators\<close>

text \<open>
  The program (\<^verbatim>\<open>main.py\<close>) is glue between a GUI toolkit and three libraries:
  the television control protocol client (\<^verbatim>\<open>WebOSClientAdapter\<close>, the four
  \<^verbatim>\<open>*Control\<close> classes), the settings store and the address-resolution and
  wake-packet functions. None of the libraries is part of the program: each of their
  entry points is a parameter of the model, a function on an abstract world \<open>'w\<close> that
  returns a value or raises. Every theorem below that is stated for an arbitrary \<open>ext\<close>
  holds for all such functions.

  An exception is classified the way the only handler of the program classifies it:
  \<^verbatim>\<open>except OSError\<close> catches \<^verbatim>\<open>OSError\<close> and its subclasses (among them
  \<^verbatim>\<open>ConnectionError\<close>, \<^verbatim>\<open>TimeoutError\<close> and the socket errors), and
  nothing else.
\<close>

datatype exn = OSError string | OtherError string

type_synonym 'a result = "exn + 'a"

text \<open>The four control classes imported from \<^verbatim>\<open>pywebostv.controls\<close>.\<close>

datatype kind = SystemControl | MediaControl | ApplicationControl | InputControl

text \<open>The client object that \<^verbatim>\<open>adapter.create\<close> returns is opaque.\<close>

type_synonym handle = nat

text \<open>
  A control instance: the class called, the client handed to its constructor, and the
  identity of the Python object (every constructor call makes a new object).
\<close>

record control =
  ident :: nat
  ckind :: kind
  client :: handle

datatype pyval = PyStr string | PyFloat string | PyNone

text \<open>\<^verbatim>\<open>Application({'id': ...})\<close>: the descriptor wraps the dict it is given.\<close>

datatype application = Application "(string \<times> pyval) list"

text \<open>
  The calls that leave the program, with their arguments. \<open>CallMethod c name args\<close> is
  \<^verbatim>\<open>getattr(c, name)(*args)\<close>; \<open>Print\<close> is the line written by
  \<^verbatim>\<open>print(e)\<close>.
\<close>

datatype call =
    SettingsLoad string
  | SettingsGet string
  | AdapterCreate string string
  | ControlInit kind handle
  | ConnectInput control
  | CallMethod control string "pyval list"
  | Launch control application
  | GetMacAddress string
  | SendMagicPacket "string option"
  | Print exn

text \<open>An event is a call and how it ended: \<open>None\<close> when it returned, the exception when it raised.\<close>

type_synonym event = "call \<times> exn option"

record tv_settings =
  host :: string

record 'w extern =
  home :: string
  settings_load :: "string \<Rightarrow> 'w \<Rightarrow> unit result \<times> 'w"
  settings_get :: "string \<Rightarrow> 'w \<Rightarrow> tv_settings result \<times> 'w"
  adapter_create :: "string \<Rightarrow> string \<Rightarrow> 'w \<Rightarrow> handle result \<times> 'w"
  control_init :: "kind \<Rightarrow> handle \<Rightarrow> 'w \<Rightarrow> unit result \<times> 'w"
  connect_input :: "control \<Rightarrow> 'w \<Rightarrow> unit result \<times> 'w"
  call_method :: "control \<Rightarrow> string \<Rightarrow> pyval list \<Rightarrow> 'w \<Rightarrow> unit result \<times> 'w"
  launch :: "control \<Rightarrow> application \<Rightarrow> 'w \<Rightarrow> unit result \<times> 'w"
  get_mac_address :: "string \<Rightarrow> 'w \<Rightarrow> string option result \<times> 'w"
  send_magic_packet :: "string option \<Rightarrow> 'w \<Rightarrow> unit result \<times> 'w"

text \<open>
  The state threaded through the program: the external world, the calls made so far
  (oldest first) and the next free object identity.
\<close>

record 'w sys =
  world :: 'w
  trace :: "event list"
  next_ident :: nat

definition outcome :: "'a result \<Rightarrow> exn option" where
  "outcome r = (case r of Inl e \<Rightarrow> Some e | Inr _ \<Rightarrow> None)"

definition ext_call :: "call \<Rightarrow> ('w \<Rightarrow> 'a result \<times> 'w) \<Rightarrow> 'w sys \<Rightarrow> 'a result \<times> 'w sys" where
  "ext_call c f s =
     (case f (world s) of
        (r, w) \<Rightarrow> (r, s\<lparr>world := w, trace := trace s @ [(c, outcome r)]\<rparr>))"

definition py_print :: "exn \<Rightarrow> 'w sys \<Rightarrow> 'w sys" where
  "py_print e s = s\<lparr>trace := trace s @ [(Print e, None)]\<rparr>"

text \<open>
  \<^verbatim>\<open>str(Path().home() / '.lgtv.yaml')\<close>: \<open>home\<close> is the home directory as
  \<^verbatim>\<open>Path.home()\<close> prints it (no trailing separator, the root directory apart).
\<close>

definition config_path :: "'w extern \<Rightarrow> string" where
  "config_path ext =
     (if home ext = ''/'' then ''/.lgtv.yaml'' else home ext @ ''/.lgtv.yaml'')"

definition device_name :: string where
  "device_name = ''living_room''"

section \<open>The command properties\<close>

text \<open>
  The classes that \<^verbatim>\<open>TouchRemoteApp.build\<close> instantiates; \<^verbatim>\<open>PowerOn\<close> is
  not one of them (it derives from the toolkit's button directly).
\<close>

datatype button_class =
    PowerOff | VolumeUp | VolumeDown | Rewind | Pause | Play | FastForward
  | Home | Back | Up | Left | Right | Down | Ok | Mute | SettingsApp

text \<open>
  The base class of each button, named by the control class its \<^verbatim>\<open>control\<close>
  property constructs: \<^verbatim>\<open>SystemButton\<close>, \<^verbatim>\<open>MediaButton\<close>,
  \<^verbatim>\<open>ApplicationButton\<close>, \<^verbatim>\<open>InputButton\<close>.
\<close>

fun button_base :: "button_class \<Rightarrow> kind" where
  "button_base PowerOff = SystemControl"
| "button_base VolumeUp = MediaControl"
| "button_base VolumeDown = MediaControl"
| "button_base Rewind = MediaControl"
| "button_base Pause = MediaControl"
| "button_base Play = MediaControl"
| "button_base FastForward = MediaControl"
| "button_base Home = InputControl"
| "button_base Back = InputControl"
| "button_base Up = InputControl"
| "button_base Left = InputControl"
| "button_base Right = InputControl"
| "button_base Down = InputControl"
| "button_base Ok = InputControl"
| "button_base Mute = MediaControl"
| "button_base SettingsApp = ApplicationControl"

text \<open>
  The body of a \<^verbatim>\<open>command\<close> property is a list of statements over literals: an
  expression statement or a \<^verbatim>\<open>return\<close>. \<open>FloatLit\<close> carries the literal as
  it is written.
\<close>

datatype expr = StrLit string | FloatLit string

datatype stmt = ExprStmt expr | Return expr

fun eval_expr :: "expr \<Rightarrow> pyval" where
  "eval_expr (StrLit s) = PyStr s"
| "eval_expr (FloatLit t) = PyFloat t"

text \<open>
  Running a body in state \<open>s\<close>: an expression statement evaluates its literal and
  drops the value, \<^verbatim>\<open>return\<close> ends the body, and a body that ends without
  \<^verbatim>\<open>return\<close> gives \<^verbatim>\<open>None\<close>.
\<close>

fun exec_body :: "stmt list \<Rightarrow> 's \<Rightarrow> pyval result \<times> 's" where
  "exec_body [] s = (Inr PyNone, s)"
| "exec_body (ExprStmt e # rest) s = (let v = eval_expr e in exec_body rest s)"
| "exec_body (Return e # rest) s = (Inr (eval_expr e), s)"

fun command_body :: "button_class \<Rightarrow> stmt list" where
  "command_body PowerOff = [Return (StrLit ''power_off'')]"
| "command_body VolumeUp = [Return (StrLit ''volume_up'')]"
| "command_body VolumeDown = [Return (StrLit ''volume_down'')]"
| "command_body Rewind = [Return (StrLit ''rewind'')]"
| "command_body Pause = [Return (StrLit ''pause'')]"
| "command_body Play = [ExprStmt (FloatLit ''.0''), Return (StrLit ''play'')]"
| "command_body FastForward = [Return (StrLit ''fast_forward'')]"
| "command_body Home = [Return (StrLit ''home'')]"
| "command_body Back = [Return (StrLit ''back'')]"
| "command_body Up = [Return (StrLit ''up'')]"
| "command_body Left = [Return (StrLit ''left'')]"
| "command_body Right = [Return (StrLit ''right'')]"
| "command_body Down = [Return (StrLit ''down'')]"
| "command_body Ok = [Return (StrLit ''ok'')]"
| "command_body Mute = [Return (StrLit ''mute'')]"
| "command_body SettingsApp = [Return (StrLit ''com.palm.app.settings'')]"

definition command :: "button_class \<Rightarrow> 's \<Rightarrow> pyval result \<times> 's" where
  "command c s = exec_body (command_body c) s"

text \<open>\<^verbatim>\<open>str.lower\<close> on the ASCII letters (the only letters a command has).\<close>

definition lower_char :: "char \<Rightarrow> char" where
  "lower_char c =
     (let n = (of_char c :: nat) in if 65 \<le> n \<and> n \<le> 90 then char_of (n + 32) else c)"

definition lower :: "string \<Rightarrow> string" where
  "lower s = map lower_char s"

section \<open>The buttons\<close>

text \<open>
  A \<^verbatim>\<open>WebOsButton\<close> instance: its class and the attribute \<^verbatim>\<open>_control\<close>
  (\<open>None\<close> after \<^verbatim>\<open>__init__\<close>). The adapter it holds is the one adapter of the
  program, reached through \<open>adapter_create\<close>.
\<close>

record button =
  cls :: button_class
  control_attr :: "control option"

definition WebOsButton_init :: "button_class \<Rightarrow> button" where
  "WebOsButton_init c = \<lparr>cls = c, control_attr = None\<rparr>"

text \<open>
  \<^verbatim>\<open>K(self.adapter.create(str(Path().home() / '.lgtv.yaml'), 'living_room'))\<close>
  for a control class \<open>K\<close>: the argument first, then the constructor.
\<close>

definition new_control :: "'w extern \<Rightarrow> kind \<Rightarrow> 'w sys \<Rightarrow> control result \<times> 'w sys" where
  "new_control ext k s =
     (case ext_call (AdapterCreate (config_path ext) device_name)
             (adapter_create ext (config_path ext) device_name) s of
        (Inl e, s1) \<Rightarrow> (Inl e, s1)
      | (Inr h, s1) \<Rightarrow>
          (case ext_call (ControlInit k h) (control_init ext k h) s1 of
             (Inl e, s2) \<Rightarrow> (Inl e, s2)
           | (Inr _, s2) \<Rightarrow>
               (Inr \<lparr>ident = next_ident s2, ckind = k, client = h\<rparr>,
                s2\<lparr>next_ident := Suc (next_ident s2)\<rparr>)))"

text \<open>
  The \<^verbatim>\<open>control\<close> property. The three of \<^verbatim>\<open>SystemButton\<close>,
  \<^verbatim>\<open>MediaButton\<close> and \<^verbatim>\<open>ApplicationButton\<close> differ in the class they
  construct only; that of \<^verbatim>\<open>InputButton\<close> calls \<^verbatim>\<open>connect_input\<close> on
  the control after it has stored it in \<^verbatim>\<open>_control\<close>.
\<close>

definition control :: "'w extern \<Rightarrow> button \<Rightarrow> 'w sys \<Rightarrow> control result \<times> button \<times> 'w sys" where
  "control ext b s =
     (case control_attr b of
        Some c \<Rightarrow> (Inr c, b, s)
      | None \<Rightarrow>
          (case new_control ext (button_base (cls b)) s of
             (Inl e, s1) \<Rightarrow> (Inl e, b, s1)
           | (Inr c, s1) \<Rightarrow>
               (let b1 = b\<lparr>control_attr := Some c\<rparr> in
                if button_base (cls b) = InputControl then
                  (case ext_call (ConnectInput c) (connect_input ext c) s1 of
                     (Inl e, s2) \<Rightarrow> (Inl e, b1, s2)
                   | (Inr _, s2) \<Rightarrow> (Inr c, b1, s2))
                else (Inr c, b1, s1))))"

text \<open>
  \<^verbatim>\<open>except OSError as e: print(e)\<close>: an \<^verbatim>\<open>OSError\<close> is printed and the
  handler returns; any other exception leaves \<^verbatim>\<open>on_press\<close>.
\<close>

definition except_OSError :: "exn \<Rightarrow> 'w sys \<Rightarrow> unit result \<times> 'w sys" where
  "except_OSError e s =
     (case e of
        OSError m \<Rightarrow> (Inr (), py_print e s)
      | OtherError m \<Rightarrow> (Inl e, s))"

text \<open>
  \<^verbatim>\<open>WebOsButton.on_press\<close>: inside the \<^verbatim>\<open>try\<close>, \<^verbatim>\<open>self.control\<close>,
  then \<^verbatim>\<open>self.command.lower()\<close> (a value that is not a string has no
  \<^verbatim>\<open>lower\<close>), then the attribute is fetched and called with no argument.
\<close>

definition WebOsButton_on_press ::
  "'w extern \<Rightarrow> button \<Rightarrow> 'w sys \<Rightarrow> unit result \<times> button \<times> 'w sys" where
  "WebOsButton_on_press ext b s =
     (case control ext b s of
        (Inl e, b1, s1) \<Rightarrow> (case except_OSError e s1 of (r, s2) \<Rightarrow> (r, b1, s2))
      | (Inr c, b1, s1) \<Rightarrow>
          (case command (cls b1) s1 of
             (Inl e, s2) \<Rightarrow> (case except_OSError e s2 of (r, s3) \<Rightarrow> (r, b1, s3))
           | (Inr (PyStr name), s2) \<Rightarrow>
               (case ext_call (CallMethod c (lower name) []) (call_method ext c (lower name) []) s2 of
                  (Inl e, s3) \<Rightarrow> (case except_OSError e s3 of (r, s4) \<Rightarrow> (r, b1, s4))
                | (Inr _, s3) \<Rightarrow> (Inr (), b1, s3))
           | (Inr _, s2) \<Rightarrow>
               (case except_OSError (OtherError ''AttributeError'') s2 of (r, s3) \<Rightarrow> (r, b1, s3))))"

text \<open>
  \<^verbatim>\<open>ApplicationButton.on_press\<close>:
  \<^verbatim>\<open>self.control.launch(Application({'id': self.command}))\<close> inside the
  \<^verbatim>\<open>try\<close>.
\<close>

definition ApplicationButton_on_press ::
  "'w extern \<Rightarrow> button \<Rightarrow> 'w sys \<Rightarrow> unit result \<times> button \<times> 'w sys" where
  "ApplicationButton_on_press ext b s =
     (case control ext b s of
        (Inl e, b1, s1) \<Rightarrow> (case except_OSError e s1 of (r, s2) \<Rightarrow> (r, b1, s2))
      | (Inr c, b1, s1) \<Rightarrow>
          (case command (cls b1) s1 of
             (Inl e, s2) \<Rightarrow> (case except_OSError e s2 of (r, s3) \<Rightarrow> (r, b1, s3))
           | (Inr v, s2) \<Rightarrow>
               (case ext_call (Launch c (Application [(''id'', v)]))
                       (launch ext c (Application [(''id'', v)])) s2 of
                  (Inl e, s3) \<Rightarrow> (case except_OSError e s3 of (r, s4) \<Rightarrow> (r, b1, s4))
                | (Inr _, s3) \<Rightarrow> (Inr (), b1, s3))))"

text \<open>Method resolution: \<^verbatim>\<open>ApplicationButton\<close> overrides \<^verbatim>\<open>on_press\<close>.\<close>

definition on_press :: "'w extern \<Rightarrow> button \<Rightarrow> 'w sys \<Rightarrow> unit result \<times> button \<times> 'w sys" where
  "on_press ext b s =
     (if button_base (cls b) = ApplicationControl then ApplicationButton_on_press ext b s
      else WebOsButton_on_press ext b s)"

text \<open>
  \<^verbatim>\<open>PowerOn.on_press\<close>:
  \<^verbatim>\<open>send_magic_packet(get_mac_address(ip=self.settings.host))\<close>, with no handler
  around it.
\<close>

definition PowerOn_on_press :: "'w extern \<Rightarrow> tv_settings \<Rightarrow> 'w sys \<Rightarrow> unit result \<times> 'w sys" where
  "PowerOn_on_press ext st s =
     (case ext_call (GetMacAddress (host st)) (get_mac_address ext (host st)) s of
        (Inl e, s1) \<Rightarrow> (Inl e, s1)
      | (Inr mac, s1) \<Rightarrow> ext_call (SendMagicPacket mac) (send_magic_packet ext mac) s1)"

section \<open>The application\<close>

text \<open>
  The interactive elements of the layout: the one \<^verbatim>\<open>PowerOn\<close> button, which
  holds the settings of the device, and the \<^verbatim>\<open>WebOsButton\<close>s.
\<close>

datatype widget = PowerOn tv_settings | WebOs button

text \<open>
  \<^verbatim>\<open>TouchRemoteApp.build\<close>: the settings are loaded from the configuration
  path, then the widget tree is built, left grid first. \<^verbatim>\<open>PowerGrid.__init__\<close>
  looks the device up in the settings for the \<^verbatim>\<open>PowerOn\<close> button. Neither call
  has a handler around it. The widgets are listed in the order of their construction.
\<close>

definition build :: "'w extern \<Rightarrow> 'w sys \<Rightarrow> widget list result \<times> 'w sys" where
  "build ext s =
     (case ext_call (SettingsLoad (config_path ext)) (settings_load ext (config_path ext)) s of
        (Inl e, s1) \<Rightarrow> (Inl e, s1)
      | (Inr _, s1) \<Rightarrow>
          (case ext_call (SettingsGet device_name) (settings_get ext device_name) s1 of
             (Inl e, s2) \<Rightarrow> (Inl e, s2)
           | (Inr tv, s2) \<Rightarrow>
               (Inr (PowerOn tv #
                     map (\<lambda>c. WebOs (WebOsButton_init c))
                       [PowerOff, VolumeUp, VolumeDown, Rewind, Pause, Play, FastForward,
                        Back, Up, Home, Left, Ok, Right, Mute, Down, SettingsApp]),
                s2)))"

text \<open>Activating the \<open>i\<close>-th widget runs its \<^verbatim>\<open>on_press\<close>.\<close>

definition press :: "'w extern \<Rightarrow> nat \<Rightarrow> widget list \<Rightarrow> 'w sys \<Rightarrow> unit result \<times> widget list \<times> 'w sys" where
  "press ext i ws s =
     (if i < length ws then
        (case ws ! i of
           PowerOn st \<Rightarrow> (case PowerOn_on_press ext st s of (r, s1) \<Rightarrow> (r, ws, s1))
         | WebOs b \<Rightarrow> (case on_press ext b s of (r, b1, s1) \<Rightarrow> (r, ws[i := WebOs b1], s1)))
      else (Inr (), ws, s))"

text \<open>
  A session: the widgets are activated one after the other. An exception that leaves
  \<^verbatim>\<open>on_press\<close> reaches the event loop of the toolkit and ends the session.
\<close>

fun run :: "'w extern \<Rightarrow> nat list \<Rightarrow> widget list \<Rightarrow> 'w sys \<Rightarrow> unit result \<times> widget list \<times> 'w sys" where
  "run ext [] ws s = (Inr (), ws, s)"
| "run ext (i # js) ws s =
     (case press ext i ws s of
        (Inl e, ws1, s1) \<Rightarrow> (Inl e, ws1, s1)
      | (Inr _, ws1, s1) \<Rightarrow> run ext js ws1 s1)"

definition TouchRemoteApp_run :: "'w extern \<Rightarrow> nat list \<Rightarrow> 'w sys \<Rightarrow> unit result \<times> widget list \<times> 'w sys" where
  "TouchRemoteApp_run ext js s =
     (case build ext s of
        (Inl e, s1) \<Rightarrow> (Inl e, [], s1)
      | (Inr ws, s1) \<Rightarrow> run ext js ws s1)"

text \<open>
  The life of one button: it is activated once for every element of the list, and
  before each activation the world may have changed in any way (the element is the
  change: other buttons were pressed, the television was switched on or off). An
  exception that leaves \<^verbatim>\<open>on_press\<close> is dropped here, so that the activations after
  it are covered as well, whatever the toolkit does with it.
\<close>

fun activations :: "'w extern \<Rightarrow> ('w \<Rightarrow> 'w) list \<Rightarrow> button \<Rightarrow> 'w sys \<Rightarrow> button \<times> 'w sys" where
  "activations ext [] b s = (b, s)"
| "activations ext (f # fs) b s =
     (case on_press ext b (s\<lparr>world := f (world s)\<rparr>) of
        (r, b1, s1) \<Rightarrow> activations ext fs b1 s1)"

section \<open>Reading the trace\<close>

text \<open>The string a button's \<^verbatim>\<open>command\<close> property evaluates to.\<close>

definition command_string :: "button_class \<Rightarrow> string" where
  "command_string c = (case fst (command c ()) of Inr (PyStr n) \<Rightarrow> n | _ \<Rightarrow> [])"

text \<open>What the handler of \<^verbatim>\<open>on_press\<close> writes for a call that ended with \<open>out\<close>.\<close>

definition printed :: "exn option \<Rightarrow> event list" where
  "printed out = (case out of Some (OSError m) \<Rightarrow> [(Print (OSError m), None)] | _ \<Rightarrow> [])"

text \<open>
  What an activation adds to the trace once its control \<open>c\<close> is resolved, in world \<open>w\<close>:
  the one call of the \<^verbatim>\<open>on_press\<close> of the button's class, and the line printed when
  that call raised an \<^verbatim>\<open>OSError\<close>.
\<close>

definition dispatched :: "'w extern \<Rightarrow> button_class \<Rightarrow> control \<Rightarrow> 'w \<Rightarrow> event list" where
  "dispatched ext k c w =
     (if button_base k = ApplicationControl then
        (let d = Application [(''id'', PyStr (command_string k))];
             out = outcome (fst (launch ext c d w))
         in (Launch c d, out) # printed out)
      else
        (let out = outcome (fst (call_method ext c (command_string k) [] w))
         in (CallMethod c (command_string k) [], out) # printed out))"

fun is_create :: "event \<Rightarrow> bool" where
  "is_create (AdapterCreate p n, out) = True"
| "is_create ev = False"

fun is_init :: "event \<Rightarrow> bool" where
  "is_init (ControlInit k h, out) = True"
| "is_init ev = False"

fun is_connect :: "event \<Rightarrow> bool" where
  "is_connect (ConnectInput c, out) = True"
| "is_connect ev = False"

text \<open>A constructor call that returned: a control instance was constructed.\<close>

fun is_constructed :: "event \<Rightarrow> bool" where
  "is_constructed (ControlInit k h, None) = True"
| "is_constructed ev = False"

definition count_events :: "(event \<Rightarrow> bool) \<Rightarrow> event list \<Rightarrow> nat" where
  "count_events P t = length (filter P t)"

text \<open>A call to the television control protocol client: the adapter or a control.\<close>

fun is_tv_client_call :: "call \<Rightarrow> bool" where
  "is_tv_client_call (AdapterCreate p n) = True"
| "is_tv_client_call (ControlInit k h) = True"
| "is_tv_client_call (ConnectInput c) = True"
| "is_tv_client_call (CallMethod c n a) = True"
| "is_tv_client_call (Launch c a) = True"
| "is_tv_client_call c = False"

text \<open>The input channel of control \<open>c\<close> is connected: a \<^verbatim>\<open>connect_input\<close> call on it returned.\<close>

definition input_connected :: "event list \<Rightarrow> control \<Rightarrow> bool" where
  "input_connected t c = ((ConnectInput c, None) \<in> set t)"

text \<open>The calls that take a configuration path or a device name take the fixed ones.\<close>

fun fixed_args :: "'w extern \<Rightarrow> call \<Rightarrow> bool" where
  "fixed_args ext (SettingsLoad p) = (p = config_path ext)"
| "fixed_args ext (SettingsGet n) = (n = ''living_room'')"
| "fixed_args ext (AdapterCreate p n) = (p = config_path ext \<and> n = ''living_room'')"
| "fixed_args ext c = True"

section \<open>Concrete worlds\<close>

text \<open>
  Worlds for the concrete runs below. The world is a clock that every external call
  advances by one.
\<close>

definition tick :: "'a result \<Rightarrow> nat \<Rightarrow> 'a result \<times> nat" where
  "tick r w = (r, Suc w)"

text \<open>Every call returns.\<close>

definition working :: "nat extern" where
  "working =
     \<lparr>home = ''/home/pi'',
      settings_load = (\<lambda>p. tick (Inr ())),
      settings_get = (\<lambda>n. tick (Inr \<lparr>host = ''192.168.1.50''\<rparr>)),
      adapter_create = (\<lambda>p n. tick (Inr 7)),
      control_init = (\<lambda>k h. tick (Inr ())),
      connect_input = (\<lambda>c. tick (Inr ())),
      call_method = (\<lambda>c n a. tick (Inr ())),
      launch = (\<lambda>c a. tick (Inr ())),
      get_mac_address = (\<lambda>ip. tick (Inr (Some ''a0:b1:c2:d3:e4:f5''))),
      send_magic_packet = (\<lambda>m. tick (Inr ()))\<rparr>"

text \<open>The television is off at time 0: the first \<^verbatim>\<open>adapter.create\<close> is refused.\<close>

definition tv_off_at_first :: "nat extern" where
  "tv_off_at_first =
     working\<lparr>adapter_create :=
       (\<lambda>p n w. if w = 0 then tick (Inl (OSError ''Connection refused'')) w else tick (Inr 7) w)\<rparr>"

text \<open>
  The input channel cannot be opened before time 3: the \<^verbatim>\<open>connect_input\<close> of a
  first press (the third call) fails, a later one would return.
\<close>

definition input_channel_late :: "nat extern" where
  "input_channel_late =
     working\<lparr>connect_input :=
       (\<lambda>c w. if w < 3 then tick (Inl (OSError ''Connection reset by peer'')) w else tick (Inr ()) w)\<rparr>"

text \<open>The host has no route to the network: sending the wake packet fails.\<close>

definition network_unreachable :: "nat extern" where
  "network_unreachable =
     working\<lparr>send_magic_packet := (\<lambda>m. tick (Inl (OSError ''Network is unreachable'')))\<rparr>"

definition boot :: "nat sys" where
  "boot = \<lparr>world = 0, trace = [], next_ident = 0\<rparr>"

section \<open>Facts about single steps\<close>

lemmas eval_defs =
  on_press_def WebOsButton_on_press_def ApplicationButton_on_press_def control_def
  new_control_def ext_call_def py_print_def except_OSError_def outcome_def command_def
  command_string_def lower_def lower_char_def config_path_def device_name_def
  WebOsButton_init_def PowerOn_on_press_def press_def build_def TouchRemoteApp_run_def
  printed_def count_events_def tick_def working_def boot_def

lemma ext_call_eq:
  "ext_call c f s =
     (fst (f (world s)),
      s\<lparr>world := snd (f (world s)), trace := trace s @ [(c, outcome (fst (f (world s))))]\<rparr>)"
  by (simp add: ext_call_def split: prod.splits)

lemma command_eq: "command c s = (Inr (PyStr (command_string c)), s)"
  by (cases c) (simp_all add: command_def command_string_def)

lemma lower_command_string: "lower (command_string c) = command_string c"
  by (cases c) (simp_all add: command_string_def command_def lower_def lower_char_def)

lemma control_cached: "control_attr b = Some c \<Longrightarrow> control ext b s = (Inr c, b, s)"
  by (simp add: control_def)

lemma control_cls: "control ext b s = (r, b1, s1) \<Longrightarrow> cls b1 = cls b"
  by (auto simp: control_def Let_def split: option.splits prod.splits sum.splits if_splits)

lemma count_events_append [simp]:
  "count_events P (t @ u) = count_events P t + count_events P u"
  by (simp add: count_events_def)

lemma count_events_Nil [simp]: "count_events P [] = 0"
  by (simp add: count_events_def)

lemma count_events_Cons [simp]:
  "count_events P (x # t) = (if P x then 1 else 0) + count_events P t"
  by (simp add: count_events_def)

lemma new_control_counts:
  assumes "new_control ext k s = (r, s1)"
  shows "count_events is_constructed (trace s1) =
           count_events is_constructed (trace s) + (case r of Inl e \<Rightarrow> 0 | Inr c \<Rightarrow> 1)"
    and "count_events is_connect (trace s1) = count_events is_connect (trace s)"
  using assms
  by (auto simp: new_control_def ext_call_eq outcome_def split: sum.splits prod.splits)

lemma control_None_counts:
  assumes "control_attr b = None" and "control ext b s = (r, b1, s1)"
  shows "count_events is_constructed (trace s1) =
           count_events is_constructed (trace s) + (if control_attr b1 = None then 0 else 1)"
    and "count_events is_connect (trace s1) =
           count_events is_connect (trace s) +
             (if button_base (cls b) = InputControl \<and> control_attr b1 \<noteq> None then 1 else 0)"
  using assms
  by (auto simp: control_def Let_def ext_call_eq outcome_def dest: new_control_counts
        split: sum.splits prod.splits if_splits)

lemma on_press_after_control:
  assumes "on_press ext b s = (r, b2, s2)" and "control ext b s = (rc, b1, s1)"
  shows "b2 = b1"
    and "count_events is_create (trace s2) = count_events is_create (trace s1)"
    and "count_events is_init (trace s2) = count_events is_init (trace s1)"
    and "count_events is_constructed (trace s2) = count_events is_constructed (trace s1)"
    and "count_events is_connect (trace s2) = count_events is_connect (trace s1)"
  using assms
  by (auto simp: on_press_def WebOsButton_on_press_def ApplicationButton_on_press_def command_eq
        ext_call_eq except_OSError_def py_print_def outcome_def
        split: sum.splits exn.splits if_splits)

lemma on_press_cached:
  assumes "control_attr b = Some c" and "on_press ext b s = (r, b2, s2)"
  shows "control_attr b2 = Some c"
    and "count_events is_create (trace s2) = count_events is_create (trace s)"
    and "count_events is_init (trace s2) = count_events is_init (trace s)"
    and "count_events is_constructed (trace s2) = count_events is_constructed (trace s)"
    and "count_events is_connect (trace s2) = count_events is_connect (trace s)"
  using on_press_after_control [OF assms(2) control_cached [OF assms(1)]] assms(1)
  by simp_all

lemma on_press_fresh:
  assumes "control_attr b = None" and "on_press ext b s = (r, b2, s2)"
  shows "count_events is_constructed (trace s2) =
           count_events is_constructed (trace s) + (if control_attr b2 = None then 0 else 1)"
    and "count_events is_connect (trace s2) =
           count_events is_connect (trace s) +
             (if button_base (cls b) = InputControl \<and> control_attr b2 \<noteq> None then 1 else 0)"
proof -
  obtain rc b1 s1 where c: "control ext b s = (rc, b1, s1)"
    by (cases "control ext b s") auto
  note a = on_press_after_control [OF assms(2) c]
  note n = control_None_counts [OF assms(1) c]
  show "count_events is_constructed (trace s2) =
           count_events is_constructed (trace s) + (if control_attr b2 = None then 0 else 1)"
    using a n by simp
  show "count_events is_connect (trace s2) =
           count_events is_connect (trace s) +
             (if button_base (cls b) = InputControl \<and> control_attr b2 \<noteq> None then 1 else 0)"
    using a n by simp
qed

lemma on_press_cls: "on_press ext b s = (r, b2, s2) \<Longrightarrow> cls b2 = cls b"
proof -
  assume p: "on_press ext b s = (r, b2, s2)"
  obtain rc b1 s1 where c: "control ext b s = (rc, b1, s1)"
    by (cases "control ext b s") auto
  from on_press_after_control(1) [OF p c] control_cls [OF c] show ?thesis by simp
qed

lemma activations_cached:
  assumes "control_attr b = Some c" and "activations ext fs b s = (b', s')"
  shows "control_attr b' = Some c \<and>
         count_events is_create (trace s') = count_events is_create (trace s) \<and>
         count_events is_init (trace s') = count_events is_init (trace s) \<and>
         count_events is_constructed (trace s') = count_events is_constructed (trace s) \<and>
         count_events is_connect (trace s') = count_events is_connect (trace s)"
  using assms
proof (induction fs arbitrary: b s)
  case Nil
  then show ?case by simp
next
  case (Cons f fs)
  obtain r b1 s1 where p: "on_press ext b (s\<lparr>world := f (world s)\<rparr>) = (r, b1, s1)"
    by (cases "on_press ext b (s\<lparr>world := f (world s)\<rparr>)") auto
  note st = on_press_cached [OF Cons.prems(1) p]
  from Cons.prems(2) p have "activations ext fs b1 s1 = (b', s')" by simp
  from Cons.IH [OF st(1) this] st show ?case by simp
qed

lemma activations_fresh:
  assumes "control_attr b = None" and "activations ext fs b s = (b', s')"
  shows "count_events is_constructed (trace s') =
           count_events is_constructed (trace s) + (if control_attr b' = None then 0 else 1) \<and>
         count_events is_connect (trace s') =
           count_events is_connect (trace s) +
             (if button_base (cls b) = InputControl \<and> control_attr b' \<noteq> None then 1 else 0)"
  using assms
proof (induction fs arbitrary: b s)
  case Nil
  then show ?case by simp
next
  case (Cons f fs)
  obtain r b1 s1 where p: "on_press ext b (s\<lparr>world := f (world s)\<rparr>) = (r, b1, s1)"
    by (cases "on_press ext b (s\<lparr>world := f (world s)\<rparr>)") auto
  from Cons.prems(2) p have rest: "activations ext fs b1 s1 = (b', s')" by simp
  note st = on_press_fresh [OF Cons.prems(1) p]
  have k: "cls b1 = cls b" using on_press_cls [OF p] .
  show ?case
  proof (cases "control_attr b1")
    case None
    from Cons.IH [OF None rest] st None k show ?thesis by simp
  next
    case (Some c)
    from activations_cached [OF Some rest] st Some show ?thesis by simp
  qed
qed

lemma new_control_kind:
  "new_control ext k s = (Inr c, s1) \<Longrightarrow> ckind c = k"
  by (auto simp: new_control_def ext_call_eq split: sum.splits prod.splits)

lemma control_kind:
  assumes "control_attr b = None" and "control ext b s = (r, b1, s1)" and "control_attr b1 = Some c"
  shows "ckind c = button_base (cls b)"
  using assms
  by (auto simp: control_def Let_def ext_call_eq dest: new_control_kind
        split: sum.splits prod.splits if_splits)

lemma new_control_grows:
  assumes "new_control ext k s = (r, s1)"
  shows "\<exists>t. trace s1 = trace s @
           (AdapterCreate (config_path ext) device_name,
            outcome (fst (adapter_create ext (config_path ext) device_name (world s)))) # t \<and>
           list_all (\<lambda>ev. fixed_args ext (fst ev)) t"
  using assms
  by (auto simp: new_control_def ext_call_eq split: sum.splits prod.splits)

lemma control_fresh_grows:
  assumes "control_attr b = None" and "control ext b s = (rc, b1, s1)"
  shows "\<exists>t. trace s1 = trace s @
           (AdapterCreate (config_path ext) device_name,
            outcome (fst (adapter_create ext (config_path ext) device_name (world s)))) # t \<and>
           list_all (\<lambda>ev. fixed_args ext (fst ev)) t"
proof -
  obtain rn sn where nc: "new_control ext (button_base (cls b)) s = (rn, sn)"
    by (cases "new_control ext (button_base (cls b)) s") auto
  from new_control_grows [OF nc] obtain t where
    t: "trace sn = trace s @
           (AdapterCreate (config_path ext) device_name,
            outcome (fst (adapter_create ext (config_path ext) device_name (world s)))) # t"
       "list_all (\<lambda>ev. fixed_args ext (fst ev)) t"
    by blast
  from assms nc t show ?thesis
    by (auto simp: control_def Let_def ext_call_eq split: sum.splits if_splits)
qed

lemma on_press_grows:
  assumes "on_press ext b s = (r, b2, s2)" and "control ext b s = (rc, b1, s1)"
  shows "\<exists>u. trace s2 = trace s1 @ u \<and> list_all (\<lambda>ev. fixed_args ext (fst ev)) u"
  using assms
  by (auto simp: on_press_def WebOsButton_on_press_def ApplicationButton_on_press_def command_eq
        ext_call_eq except_OSError_def py_print_def
        split: sum.splits exn.splits if_splits)

lemma on_press_fresh_starts_with_create:
  assumes "control_attr b = None" and "on_press ext b s = (r, b2, s2)"
  shows "\<exists>t. trace s2 = trace s @
           (AdapterCreate (config_path ext) device_name,
            outcome (fst (adapter_create ext (config_path ext) device_name (world s)))) # t"
proof -
  obtain rc b1 s1 where c: "control ext b s = (rc, b1, s1)"
    by (cases "control ext b s") auto
  from control_fresh_grows [OF assms(1) c] on_press_grows [OF assms(2) c]
  show ?thesis by auto
qed

lemma fixed_on_press:
  assumes "list_all (\<lambda>ev. fixed_args ext (fst ev)) (trace s)" and "on_press ext b s = (r, b2, s2)"
  shows "list_all (\<lambda>ev. fixed_args ext (fst ev)) (trace s2)"
proof -
  obtain rc b1 s1 where c: "control ext b s = (rc, b1, s1)"
    by (cases "control ext b s") auto
  have "list_all (\<lambda>ev. fixed_args ext (fst ev)) (trace s1)"
  proof (cases "control_attr b")
    case None
    from control_fresh_grows [OF None c] assms(1) show ?thesis
      by (auto simp: device_name_def)
  next
    case (Some cc)
    from control_cached [OF Some, of ext s] c assms(1) show ?thesis by simp
  qed
  with on_press_grows [OF assms(2) c] show ?thesis by auto
qed

lemma fixed_PowerOn:
  assumes "list_all (\<lambda>ev. fixed_args ext (fst ev)) (trace s)" and "PowerOn_on_press ext st s = (r, s2)"
  shows "list_all (\<lambda>ev. fixed_args ext (fst ev)) (trace s2)"
  using assms
  by (auto simp: PowerOn_on_press_def ext_call_eq split: sum.splits prod.splits)

lemma fixed_press:
  assumes "list_all (\<lambda>ev. fixed_args ext (fst ev)) (trace s)" and "press ext i ws s = (r, ws2, s2)"
  shows "list_all (\<lambda>ev. fixed_args ext (fst ev)) (trace s2)"
proof (cases "i < length ws")
  case False
  with assms show ?thesis by (simp add: press_def)
next
  case True
  show ?thesis
  proof (cases "ws ! i")
    case (PowerOn st)
    with True assms(2) obtain r1 where "PowerOn_on_press ext st s = (r1, s2)"
      by (auto simp: press_def split: prod.splits)
    from fixed_PowerOn [OF assms(1) this] show ?thesis .
  next
    case (WebOs b)
    with True assms(2) obtain r1 b1 where "on_press ext b s = (r1, b1, s2)"
      by (auto simp: press_def split: prod.splits)
    from fixed_on_press [OF assms(1) this] show ?thesis .
  qed
qed

lemma fixed_run:
  assumes "list_all (\<lambda>ev. fixed_args ext (fst ev)) (trace s)" and "run ext js ws s = (r, ws2, s2)"
  shows "list_all (\<lambda>ev. fixed_args ext (fst ev)) (trace s2)"
  using assms
proof (induction js arbitrary: ws s)
  case Nil
  then show ?case by simp
next
  case (Cons i js)
  obtain r1 ws1 s1 where p: "press ext i ws s = (r1, ws1, s1)"
    by (cases "press ext i ws s") auto
  note f = fixed_press [OF Cons.prems(1) p]
  show ?case
  proof (cases r1)
    case (Inl e)
    with Cons.prems(2) p f show ?thesis by simp
  next
    case (Inr u)
    with Cons.prems(2) p have "run ext js ws1 s1 = (r, ws2, s2)" by simp
    from Cons.IH [OF f this] show ?thesis .
  qed
qed

lemma fixed_build:
  assumes "list_all (\<lambda>ev. fixed_args ext (fst ev)) (trace s)" and "build ext s = (r, s2)"
  shows "list_all (\<lambda>ev. fixed_args ext (fst ev)) (trace s2)"
  using assms
  by (auto simp: build_def ext_call_eq device_name_def split: sum.splits prod.splits)

lemma on_press_fresh_kind:
  assumes "control_attr b = None" and "on_press ext b s = (r, b2, s2)"
    and "control_attr b2 = Some c"
  shows "ckind c = button_base (cls b)"
proof -
  obtain rc b1 s1 where k: "control ext b s = (rc, b1, s1)"
    by (cases "control ext b s") auto
  from on_press_after_control(1) [OF assms(2) k] assms(3) have "control_attr b1 = Some c"
    by simp
  from control_kind [OF assms(1) k this] show ?thesis .
qed

lemma activations_fresh_kind:
  assumes "control_attr b = None" and "activations ext fs b s = (b', s')"
    and "control_attr b' = Some c"
  shows "ckind c = button_base (cls b)"
  using assms
proof (induction fs arbitrary: b s)
  case Nil
  then show ?case by simp
next
  case (Cons f fs)
  obtain r b1 s1 where p: "on_press ext b (s\<lparr>world := f (world s)\<rparr>) = (r, b1, s1)"
    by (cases "on_press ext b (s\<lparr>world := f (world s)\<rparr>)") auto
  from Cons.prems(2) p have rest: "activations ext fs b1 s1 = (b', s')" by simp
  have k: "cls b1 = cls b" using on_press_cls [OF p] .
  show ?case
  proof (cases "control_attr b1")
    case None
    from Cons.IH [OF None rest Cons.prems(3)] k show ?thesis by simp
  next
    case (Some d)
    from activations_cached [OF Some rest] Cons.prems(3) have "d = c" by simp
    with on_press_fresh_kind [OF Cons.prems(1) p] Some show ?thesis by simp
  qed
qed

lemma except_OSError_result: "except_OSError e s = (r, s1) \<Longrightarrow> r \<noteq> Inl (OSError m)"
  by (cases e) (auto simp: except_OSError_def)

text \<open>
  Both \<^verbatim>\<open>on_press\<close> methods of the \<^verbatim>\<open>WebOsButton\<close> classes catch every
  \<^verbatim>\<open>OSError\<close>, that of the property \<^verbatim>\<open>control\<close> included: none leaves the
  method.
\<close>

lemma on_press_catches_OSError:
  assumes "on_press ext b s = (r, b2, s2)"
  shows "r \<noteq> Inl (OSError m)"
  using assms
  by (auto simp: on_press_def WebOsButton_on_press_def ApplicationButton_on_press_def command_eq
        dest: except_OSError_result split: prod.splits sum.splits if_splits)

lemma on_press_after_control_trace:
  assumes "on_press ext b s = (r, b2, s2)" and "control ext b s = (rc, b1, s1)"
  shows "trace s2 = trace s1 @
           (case rc of Inl e \<Rightarrow> printed (Some e) | Inr c \<Rightarrow> dispatched ext (cls b) c (world s1))"
proof -
  have k: "cls b1 = cls b" using control_cls [OF assms(2)] .
  show ?thesis
  proof (cases rc)
    case (Inl e)
    with assms show ?thesis
      by (cases e)
        (auto simp: on_press_def WebOsButton_on_press_def ApplicationButton_on_press_def
           except_OSError_def py_print_def printed_def split: if_splits)
  next
    case (Inr c)
    with assms k show ?thesis
      by (auto simp: on_press_def WebOsButton_on_press_def ApplicationButton_on_press_def
            dispatched_def command_eq lower_command_string ext_call_eq
            except_OSError_def py_print_def printed_def outcome_def Let_def
            split: sum.splits exn.splits)
  qed
qed

lemma control_fresh_eq:
  assumes "control_attr b = None" and "button_base (cls b) \<noteq> InputControl"
  shows "control ext b s =
     (let k = button_base (cls b);
          a = adapter_create ext (config_path ext) device_name (world s)
      in case fst a of
           Inl e1 \<Rightarrow>
             (Inl e1, b,
              s\<lparr>world := snd a,
                trace := trace s @ [(AdapterCreate (config_path ext) device_name, Some e1)]\<rparr>)
         | Inr h \<Rightarrow>
             (let i = control_init ext k h (snd a)
              in case fst i of
                   Inl e2 \<Rightarrow>
                     (Inl e2, b,
                      s\<lparr>world := snd i,
                        trace := trace s @
                          [(AdapterCreate (config_path ext) device_name, None),
                           (ControlInit k h, Some e2)]\<rparr>)
                 | Inr u \<Rightarrow>
                     (Inr \<lparr>ident = next_ident s, ckind = k, client = h\<rparr>,
                      b\<lparr>control_attr := Some \<lparr>ident = next_ident s, ckind = k, client = h\<rparr>\<rparr>,
                      s\<lparr>world := snd i,
                        trace := trace s @
                          [(AdapterCreate (config_path ext) device_name, None),
                           (ControlInit k h, None)],
                        next_ident := Suc (next_ident s)\<rparr>)))"
  using assms
  by (simp add: control_def new_control_def ext_call_eq outcome_def Let_def
        split: sum.splits)

section \<open>The claims\<close>

subsection \<open>Dispatch errors\<close>

text \<open>
  Claim C1: for every command button and every activation, an operating-system-level or
  network-level error raised during command invocation is caught at the point of
  dispatch and only printed, and this holds for every interactive element including
  the power-on button.

  For the command buttons this is \<open>on_press_catches_OSError\<close>. The power-on button
  breaks it: \<^verbatim>\<open>PowerOn.on_press\<close> has no handler, unlike the two other
  \<^verbatim>\<open>on_press\<close> methods. With no route to the network the \<^verbatim>\<open>OSError\<close> of
  \<^verbatim>\<open>send_magic_packet\<close> leaves \<^verbatim>\<open>on_press\<close>, nothing is printed, and the
  session ends with that error.
\<close>

theorem C1_power_on_error_propagates:
  "PowerOn_on_press network_unreachable \<lparr>host = ''192.168.1.50''\<rparr> boot =
     (Inl (OSError ''Network is unreachable''),
      \<lparr>world = 2,
       trace = [(GetMacAddress ''192.168.1.50'', None),
                (SendMagicPacket (Some ''a0:b1:c2:d3:e4:f5''),
                 Some (OSError ''Network is unreachable''))],
       next_ident = 0\<rparr>) \<and>
   fst (TouchRemoteApp_run network_unreachable [0] boot) = Inl (OSError ''Network is unreachable'')"
  by (simp add: eval_defs network_unreachable_def)

text \<open>
  Claim C5: if a command dispatch raises a network-level error, the error does not
  propagate and the element remains usable, so that a second invocation on the same
  button with a working transport succeeds; in particular, for an Input button whose
  first acquisition failed at the connect-input step, a second press still yields a
  correctly connected input control.

  \<^verbatim>\<open>InputButton.control\<close> stores the control in \<^verbatim>\<open>_control\<close> before it calls
  \<^verbatim>\<open>connect_input\<close>. When that call raises, the second press finds the attribute
  set, skips the acquisition, and calls the command on a control whose input channel
  was never connected, although a \<^verbatim>\<open>connect_input\<close> at that time would have
  returned.
\<close>

theorem C5_input_channel_never_connected:
  "activations input_channel_late [id, id] (WebOsButton_init Home) boot =
     (\<lparr>cls = Home, control_attr = Some \<lparr>ident = 0, ckind = InputControl, client = 7\<rparr>\<rparr>,
      \<lparr>world = 4,
       trace = [(AdapterCreate ''/home/pi/.lgtv.yaml'' ''living_room'', None),
                (ControlInit InputControl 7, None),
                (ConnectInput \<lparr>ident = 0, ckind = InputControl, client = 7\<rparr>,
                 Some (OSError ''Connection reset by peer'')),
                (Print (OSError ''Connection reset by peer''), None),
                (CallMethod \<lparr>ident = 0, ckind = InputControl, client = 7\<rparr> ''home'' [], None)],
       next_ident = 1\<rparr>) \<and>
   \<not> input_connected
       (trace (snd (activations input_channel_late [id, id] (WebOsButton_init Home) boot)))
       \<lparr>ident = 0, ckind = InputControl, client = 7\<rparr> \<and>
   fst (connect_input input_channel_late \<lparr>ident = 0, ckind = InputControl, client = 7\<rparr> 3) = Inr ()"
  by (simp add: eval_defs input_channel_late_def input_connected_def)

subsection \<open>Acquisition of the control\<close>

text \<open>
  The television is off when \<^verbatim>\<open>PowerOff\<close> is pressed first: that invocation
  constructs no control and leaves \<^verbatim>\<open>_control\<close> unset; the second invocation calls
  \<^verbatim>\<open>adapter.create\<close> again and constructs the control.
\<close>

theorem C2_counterexample:
  "activations tv_off_at_first [id] (WebOsButton_init PowerOff) boot =
     (\<lparr>cls = PowerOff, control_attr = None\<rparr>,
      \<lparr>world = 1,
       trace = [(AdapterCreate ''/home/pi/.lgtv.yaml'' ''living_room'',
                 Some (OSError ''Connection refused'')),
                (Print (OSError ''Connection refused''), None)],
       next_ident = 0\<rparr>) \<and>
   count_events is_constructed
     (trace (snd (activations tv_off_at_first [id] (WebOsButton_init PowerOff) boot))) = 0 \<and>
   count_events is_create
     (trace (snd (activations tv_off_at_first [id, id] (WebOsButton_init PowerOff) boot))) = 2 \<and>
   count_events is_constructed
     (trace (snd (activations tv_off_at_first [id, id] (WebOsButton_init PowerOff) boot))) = 1"
  by (simp add: eval_defs tv_off_at_first_def)

text \<open>
  Claim C2, amended: a button constructs a control only while it holds none. Over any
  activations of a button that holds a control, the button keeps that same instance and
  neither \<^verbatim>\<open>adapter.create\<close> nor a control constructor is called. Over any
  activations of a button that holds none, no control has been constructed as long as
  the button still holds none, and exactly one, of the class of the button, once it
  holds one: the first invocation whose construction succeeds constructs it, and an
  invocation whose construction raises constructs nothing.
\<close>

theorem C2_control_constructed_on_first_success:
  assumes "activations ext fs b s = (b', s')"
  shows "case control_attr b of
           Some c \<Rightarrow>
             control_attr b' = Some c \<and>
             count_events is_create (trace s') = count_events is_create (trace s) \<and>
             count_events is_init (trace s') = count_events is_init (trace s)
         | None \<Rightarrow>
             (case control_attr b' of
                None \<Rightarrow>
                  count_events is_constructed (trace s') = count_events is_constructed (trace s)
              | Some c \<Rightarrow>
                  count_events is_constructed (trace s') =
                    count_events is_constructed (trace s) + 1 \<and>
                  ckind c = button_base (cls b))"
  using activations_cached [OF _ assms] activations_fresh [OF _ assms]
    activations_fresh_kind [OF _ assms]
  by (simp split: option.splits)

theorem C2_witness:
  "activations tv_off_at_first [id, id, id] (WebOsButton_init PowerOff) boot =
     (\<lparr>cls = PowerOff, control_attr = Some \<lparr>ident = 0, ckind = SystemControl, client = 7\<rparr>\<rparr>,
      \<lparr>world = 5,
       trace = [(AdapterCreate ''/home/pi/.lgtv.yaml'' ''living_room'',
                 Some (OSError ''Connection refused'')),
                (Print (OSError ''Connection refused''), None),
                (AdapterCreate ''/home/pi/.lgtv.yaml'' ''living_room'', None),
                (ControlInit SystemControl 7, None),
                (CallMethod \<lparr>ident = 0, ckind = SystemControl, client = 7\<rparr> ''power_off'' [], None),
                (CallMethod \<lparr>ident = 0, ckind = SystemControl, client = 7\<rparr> ''power_off'' [], None)],
       next_ident = 1\<rparr>) \<and>
   count_events is_constructed
     (trace (snd (activations tv_off_at_first [id, id, id] (WebOsButton_init PowerOff) boot))) =
     count_events is_constructed (trace boot) + 1"
proof -
  have a: "activations tv_off_at_first [id, id, id] (WebOsButton_init PowerOff) boot =
     (\<lparr>cls = PowerOff, control_attr = Some \<lparr>ident = 0, ckind = SystemControl, client = 7\<rparr>\<rparr>,
      \<lparr>world = 5,
       trace = [(AdapterCreate ''/home/pi/.lgtv.yaml'' ''living_room'',
                 Some (OSError ''Connection refused'')),
                (Print (OSError ''Connection refused''), None),
                (AdapterCreate ''/home/pi/.lgtv.yaml'' ''living_room'', None),
                (ControlInit SystemControl 7, None),
                (CallMethod \<lparr>ident = 0, ckind = SystemControl, client = 7\<rparr> ''power_off'' [], None),
                (CallMethod \<lparr>ident = 0, ckind = SystemControl, client = 7\<rparr> ''power_off'' [], None)],
       next_ident = 1\<rparr>)"
    by (simp add: eval_defs tv_off_at_first_def)
  from C2_control_constructed_on_first_success [OF a] a show ?thesis
    by (simp add: WebOsButton_init_def)
qed

text \<open>
  The television is off when \<^verbatim>\<open>Home\<close> is pressed first: that invocation makes no
  \<^verbatim>\<open>connect_input\<close> call; the call is made by the second invocation.
\<close>

theorem C4_counterexample:
  "activations tv_off_at_first [id] (WebOsButton_init Home) boot =
     (\<lparr>cls = Home, control_attr = None\<rparr>,
      \<lparr>world = 1,
       trace = [(AdapterCreate ''/home/pi/.lgtv.yaml'' ''living_room'',
                 Some (OSError ''Connection refused'')),
                (Print (OSError ''Connection refused''), None)],
       next_ident = 0\<rparr>) \<and>
   count_events is_connect
     (trace (snd (activations tv_off_at_first [id] (WebOsButton_init Home) boot))) = 0 \<and>
   count_events is_connect
     (trace (snd (activations tv_off_at_first [id, id] (WebOsButton_init Home) boot))) = 1"
  by (simp add: eval_defs tv_off_at_first_def)

text \<open>
  Claim C4, amended: an Input button calls \<^verbatim>\<open>connect_input\<close> in the invocation
  that constructs its control, and in no other. Over any activations of an Input button
  that holds a control, no \<^verbatim>\<open>connect_input\<close> call is made. Over any activations of
  an Input button that holds none, the number of \<^verbatim>\<open>connect_input\<close> calls is the
  number of controls constructed: none as long as the button still holds none, exactly
  one once it holds one. So at most one call is made over the life of the button, by the
  first invocation whose construction succeeds.
\<close>

theorem C4_connect_input_with_construction:
  assumes "button_base (cls b) = InputControl" and "activations ext fs b s = (b', s')"
  shows "case control_attr b of
           Some c \<Rightarrow>
             control_attr b' = Some c \<and>
             count_events is_connect (trace s') = count_events is_connect (trace s)
         | None \<Rightarrow>
             count_events is_connect (trace s') =
               count_events is_connect (trace s) + (if control_attr b' = None then 0 else 1) \<and>
             count_events is_constructed (trace s') =
               count_events is_constructed (trace s) + (if control_attr b' = None then 0 else 1)"
  using activations_cached [OF _ assms(2)] activations_fresh [OF _ assms(2)] assms(1)
  by (simp split: option.splits)

theorem C4_witness:
  "button_base (cls (WebOsButton_init Home)) = InputControl \<and>
   activations tv_off_at_first [id, id, id] (WebOsButton_init Home) boot =
     (\<lparr>cls = Home, control_attr = Some \<lparr>ident = 0, ckind = InputControl, client = 7\<rparr>\<rparr>,
      \<lparr>world = 6,
       trace = [(AdapterCreate ''/home/pi/.lgtv.yaml'' ''living_room'',
                 Some (OSError ''Connection refused'')),
                (Print (OSError ''Connection refused''), None),
                (AdapterCreate ''/home/pi/.lgtv.yaml'' ''living_room'', None),
                (ControlInit InputControl 7, None),
                (ConnectInput \<lparr>ident = 0, ckind = InputControl, client = 7\<rparr>, None),
                (CallMethod \<lparr>ident = 0, ckind = InputControl, client = 7\<rparr> ''home'' [], None),
                (CallMethod \<lparr>ident = 0, ckind = InputControl, client = 7\<rparr> ''home'' [], None)],
       next_ident = 1\<rparr>) \<and>
   count_events is_connect
     (trace (snd (activations tv_off_at_first [id, id, id] (WebOsButton_init Home) boot))) =
     count_events is_connect (trace boot) + 1"
proof -
  have h: "button_base (cls (WebOsButton_init Home)) = InputControl"
    by (simp add: WebOsButton_init_def)
  have a: "activations tv_off_at_first [id, id, id] (WebOsButton_init Home) boot =
     (\<lparr>cls = Home, control_attr = Some \<lparr>ident = 0, ckind = InputControl, client = 7\<rparr>\<rparr>,
      \<lparr>world = 6,
       trace = [(AdapterCreate ''/home/pi/.lgtv.yaml'' ''living_room'',
                 Some (OSError ''Connection refused'')),
                (Print (OSError ''Connection refused''), None),
                (AdapterCreate ''/home/pi/.lgtv.yaml'' ''living_room'', None),
                (ControlInit InputControl 7, None),
                (ConnectInput \<lparr>ident = 0, ckind = InputControl, client = 7\<rparr>, None),
                (CallMethod \<lparr>ident = 0, ckind = InputControl, client = 7\<rparr> ''home'' [], None),
                (CallMethod \<lparr>ident = 0, ckind = InputControl, client = 7\<rparr> ''home'' [], None)],
       next_ident = 1\<rparr>)"
    by (simp add: eval_defs tv_off_at_first_def)
  from C4_connect_input_with_construction [OF h a] h a show ?thesis
    by (simp add: WebOsButton_init_def)
qed

text \<open>
  Claim C10: for System, Media and Application buttons, if the construction of the
  control (the \<^verbatim>\<open>adapter.create\<close> call or the control constructor) raises an
  exception, the attribute \<^verbatim>\<open>_control\<close> of the button remains \<^verbatim>\<open>None\<close>, so
  that the next activation (in whatever state \<open>s'\<close> it starts) attempts the construction
  again in full: its acquisition is the whole construction once more, it calls
  \<^verbatim>\<open>adapter.create\<close>, then, when that returns a client \<open>h\<close>, the constructor of the
  button's control class on \<open>h\<close>, and, when that returns too, stores the new control and
  dispatches the command on it. When either call raises again the attribute is still
  \<^verbatim>\<open>None\<close> afterwards.
\<close>

theorem C10_failed_construction_leaves_cache_empty:
  assumes "button_base (cls b) \<noteq> InputControl"
    and "control_attr b = None"
    and "control ext b s = (Inl e, b1, s1)"
    and "on_press ext b1 s' = (r, b2, s2)"
  shows "control_attr b1 = None \<and> cls b1 = cls b \<and>
         take 1 (drop (length (trace s')) (trace s2)) =
           [(AdapterCreate (config_path ext) device_name,
             outcome (fst (adapter_create ext (config_path ext) device_name (world s'))))] \<and>
         control ext b1 s' =
           (case new_control ext (button_base (cls b)) s' of
              (Inl e3, s3) \<Rightarrow> (Inl e3, b1, s3)
            | (Inr c, s3) \<Rightarrow> (Inr c, b1\<lparr>control_attr := Some c\<rparr>, s3)) \<and>
         (let k = button_base (cls b);
              a = adapter_create ext (config_path ext) device_name (world s')
          in case fst a of
               Inl e1 \<Rightarrow>
                 control_attr b2 = None \<and>
                 trace s2 = trace s' @
                   (AdapterCreate (config_path ext) device_name, Some e1) # printed (Some e1)
             | Inr h \<Rightarrow>
                 (let i = control_init ext k h (snd a)
                  in case fst i of
                       Inl e2 \<Rightarrow>
                         control_attr b2 = None \<and>
                         trace s2 = trace s' @
                           (AdapterCreate (config_path ext) device_name, None) #
                           (ControlInit k h, Some e2) # printed (Some e2)
                     | Inr u \<Rightarrow>
                         (let c = \<lparr>ident = next_ident s', ckind = k, client = h\<rparr>
                          in control_attr b2 = Some c \<and>
                             trace s2 = trace s' @
                               (AdapterCreate (config_path ext) device_name, None) #
                               (ControlInit k h, None) #
                               (if button_base (cls b) = ApplicationControl then
                                  (let d = Application [(''id'', PyStr (command_string (cls b)))];
                                       out = outcome (fst (launch ext c d (snd i)))
                                   in (Launch c d, out) # printed out)
                                else
                                  (let out = outcome
                                         (fst (call_method ext c (command_string (cls b)) [] (snd i)))
                                   in (CallMethod c (command_string (cls b)) [], out) # printed out)))))"
proof -
  from assms(1-3) have n: "control_attr b1 = None" and k: "cls b1 = cls b"
    by (auto simp: control_def Let_def split: sum.splits prod.splits if_splits)
  have t1: "take 1 (drop (length (trace s')) (trace s2)) =
           [(AdapterCreate (config_path ext) device_name,
             outcome (fst (adapter_create ext (config_path ext) device_name (world s'))))]"
    using on_press_fresh_starts_with_create [OF n assms(4)] by auto
  from assms(1) k have ni: "button_base (cls b1) \<noteq> InputControl" by simp
  have ctrl: "control ext b1 s' =
           (case new_control ext (button_base (cls b)) s' of
              (Inl e3, s3) \<Rightarrow> (Inl e3, b1, s3)
            | (Inr c, s3) \<Rightarrow> (Inr c, b1\<lparr>control_attr := Some c\<rparr>, s3))"
    using n ni k by (simp add: control_def Let_def split: prod.splits sum.splits)
  obtain rc b3 s3 where c: "control ext b1 s' = (rc, b3, s3)"
    by (cases "control ext b1 s'") auto
  note a = on_press_after_control(1) [OF assms(4) c]
  note tr = on_press_after_control_trace [OF assms(4) c]
  note ce = c [unfolded control_fresh_eq [OF n ni]]
  have full: "(let k = button_base (cls b);
              a = adapter_create ext (config_path ext) device_name (world s')
          in case fst a of
               Inl e1 \<Rightarrow>
                 control_attr b2 = None \<and>
                 trace s2 = trace s' @
                   (AdapterCreate (config_path ext) device_name, Some e1) # printed (Some e1)
             | Inr h \<Rightarrow>
                 (let i = control_init ext k h (snd a)
                  in case fst i of
                       Inl e2 \<Rightarrow>
                         control_attr b2 = None \<and>
                         trace s2 = trace s' @
                           (AdapterCreate (config_path ext) device_name, None) #
                           (ControlInit k h, Some e2) # printed (Some e2)
                     | Inr u \<Rightarrow>
                         (let c = \<lparr>ident = next_ident s', ckind = k, client = h\<rparr>
                          in control_attr b2 = Some c \<and>
                             trace s2 = trace s' @
                               (AdapterCreate (config_path ext) device_name, None) #
                               (ControlInit k h, None) #
                               dispatched ext (cls b) c (snd i))))"
  proof (cases "fst (adapter_create ext (config_path ext) device_name (world s'))")
    case (Inl e1)
    with ce a tr n show ?thesis by (auto simp: Let_def)
  next
    case (Inr h)
    note h = Inr
    show ?thesis
    proof (cases "fst (control_init ext (button_base (cls b)) h
                    (snd (adapter_create ext (config_path ext) device_name (world s'))))")
      case (Inl e2)
      with h ce a tr n k show ?thesis by (auto simp: Let_def)
    next
      case (Inr u)
      with h ce a tr n k show ?thesis by (auto simp: Let_def)
    qed
  qed
  have full': "(let k = button_base (cls b);
              a = adapter_create ext (config_path ext) device_name (world s')
          in case fst a of
               Inl e1 \<Rightarrow>
                 control_attr b2 = None \<and>
                 trace s2 = trace s' @
                   (AdapterCreate (config_path ext) device_name, Some e1) # printed (Some e1)
             | Inr h \<Rightarrow>
                 (let i = control_init ext k h (snd a)
                  in case fst i of
                       Inl e2 \<Rightarrow>
                         control_attr b2 = None \<and>
                         trace s2 = trace s' @
                           (AdapterCreate (config_path ext) device_name, None) #
                           (ControlInit k h, Some e2) # printed (Some e2)
                     | Inr u \<Rightarrow>
                         (let c = \<lparr>ident = next_ident s', ckind = k, client = h\<rparr>
                          in control_attr b2 = Some c \<and>
                             trace s2 = trace s' @
                               (AdapterCreate (config_path ext) device_name, None) #
                               (ControlInit k h, None) #
                               (if button_base (cls b) = ApplicationControl then
                                  (let d = Application [(''id'', PyStr (command_string (cls b)))];
                                       out = outcome (fst (launch ext c d (snd i)))
                                   in (Launch c d, out) # printed out)
                                else
                                  (let out = outcome
                                         (fst (call_method ext c (command_string (cls b)) [] (snd i)))
                                   in (CallMethod c (command_string (cls b)) [], out) # printed out)))))"
    using full unfolding dispatched_def .
  from n k t1 ctrl full' show ?thesis by blast
qed

theorem C10_witness:
  "button_base (cls (WebOsButton_init PowerOff)) \<noteq> InputControl \<and>
   control_attr (WebOsButton_init PowerOff) = None \<and>
   control tv_off_at_first (WebOsButton_init PowerOff) boot =
     (Inl (OSError ''Connection refused''), \<lparr>cls = PowerOff, control_attr = None\<rparr>,
      \<lparr>world = 1,
        trace = [(AdapterCreate ''/home/pi/.lgtv.yaml'' ''living_room'',
                  Some (OSError ''Connection refused''))],
        next_ident = 0\<rparr>) \<and>
   on_press tv_off_at_first \<lparr>cls = PowerOff, control_attr = None\<rparr>
       \<lparr>world = 1,
        trace = [(AdapterCreate ''/home/pi/.lgtv.yaml'' ''living_room'',
                  Some (OSError ''Connection refused''))],
        next_ident = 0\<rparr> =
     (Inr (), \<lparr>cls = PowerOff, control_attr = Some \<lparr>ident = 0, ckind = SystemControl, client = 7\<rparr>\<rparr>,
      \<lparr>world = 4,
       trace = [(AdapterCreate ''/home/pi/.lgtv.yaml'' ''living_room'',
                 Some (OSError ''Connection refused'')),
                (AdapterCreate ''/home/pi/.lgtv.yaml'' ''living_room'', None),
                (ControlInit SystemControl 7, None),
                (CallMethod \<lparr>ident = 0, ckind = SystemControl, client = 7\<rparr> ''power_off'' [], None)],
       next_ident = 1\<rparr>) \<and>
   take 1 (drop 1 (trace (snd (snd (on_press tv_off_at_first \<lparr>cls = PowerOff, control_attr = None\<rparr>
       \<lparr>world = 1,
        trace = [(AdapterCreate ''/home/pi/.lgtv.yaml'' ''living_room'',
                  Some (OSError ''Connection refused''))],
        next_ident = 0\<rparr>))))) =
     [(AdapterCreate ''/home/pi/.lgtv.yaml'' ''living_room'', None)] \<and>
   control_attr (fst (snd (on_press tv_off_at_first \<lparr>cls = PowerOff, control_attr = None\<rparr>
       \<lparr>world = 1,
        trace = [(AdapterCreate ''/home/pi/.lgtv.yaml'' ''living_room'',
                  Some (OSError ''Connection refused''))],
        next_ident = 0\<rparr>))) = Some \<lparr>ident = 0, ckind = SystemControl, client = 7\<rparr>"
proof -
  have h: "button_base (cls (WebOsButton_init PowerOff)) \<noteq> InputControl"
    and n: "control_attr (WebOsButton_init PowerOff) = None"
    by (simp_all add: WebOsButton_init_def)
  have c: "control tv_off_at_first (WebOsButton_init PowerOff) boot =
     (Inl (OSError ''Connection refused''), \<lparr>cls = PowerOff, control_attr = None\<rparr>,
      \<lparr>world = 1,
        trace = [(AdapterCreate ''/home/pi/.lgtv.yaml'' ''living_room'',
                  Some (OSError ''Connection refused''))],
        next_ident = 0\<rparr>)"
    by (simp add: eval_defs tv_off_at_first_def)
  have p: "on_press tv_off_at_first \<lparr>cls = PowerOff, control_attr = None\<rparr>
       \<lparr>world = 1,
        trace = [(AdapterCreate ''/home/pi/.lgtv.yaml'' ''living_room'',
                  Some (OSError ''Connection refused''))],
        next_ident = 0\<rparr> =
     (Inr (), \<lparr>cls = PowerOff, control_attr = Some \<lparr>ident = 0, ckind = SystemControl, client = 7\<rparr>\<rparr>,
      \<lparr>world = 4,
       trace = [(AdapterCreate ''/home/pi/.lgtv.yaml'' ''living_room'',
                 Some (OSError ''Connection refused'')),
                (AdapterCreate ''/home/pi/.lgtv.yaml'' ''living_room'', None),
                (ControlInit SystemControl 7, None),
                (CallMethod \<lparr>ident = 0, ckind = SystemControl, client = 7\<rparr> ''power_off'' [], None)],
       next_ident = 1\<rparr>)"
    by (simp add: eval_defs tv_off_at_first_def)
  from C10_failed_construction_leaves_cache_empty [OF h n c p] h n c p show ?thesis
    by simp
qed

subsection \<open>What dispatch calls\<close>

text \<open>
  Claim C7: for every button that is not an application button and every activation,
  dispatch invokes on the resolved control exactly the method named by the command
  string of the button, with no argument; the \<^verbatim>\<open>PowerOff\<close> button invokes
  \<^verbatim>\<open>power_off\<close>. After the control has been resolved, that call is the only one
  made (followed by the printed line when it raised an \<^verbatim>\<open>OSError\<close>); when the
  control cannot be resolved no method is invoked. The name passed is
  \<^verbatim>\<open>command.lower()\<close>, which is the command string for every button of the
  program (\<open>lower_command_string\<close>).
\<close>

theorem C7_dispatch_invokes_command_method:
  assumes "button_base (cls b) \<noteq> ApplicationControl"
    and "on_press ext b s = (r, b2, s2)"
  shows "(case control ext b s of
            (Inl e, b1, s1) \<Rightarrow> b2 = b1 \<and> trace s2 = trace s1 @ printed (Some e)
          | (Inr c, b1, s1) \<Rightarrow>
              (let out = outcome (fst (call_method ext c (command_string (cls b)) [] (world s1)))
               in b2 = b1 \<and>
                  trace s2 = trace s1 @ (CallMethod c (command_string (cls b)) [], out) # printed out))
         \<and> command_string PowerOff = ''power_off''"
proof (cases "control ext b s")
  case (fields r1 b1 s1)
  have c: "cls b1 = cls b" using control_cls fields by blast
  have n: "command_string PowerOff = ''power_off''"
    by (simp add: command_string_def command_def)
  show ?thesis
  proof (cases r1)
    case (Inl e)
    with fields assms n show ?thesis
      by (cases e)
        (auto simp: on_press_def WebOsButton_on_press_def except_OSError_def py_print_def printed_def)
  next
    case (Inr cc)
    with fields assms c n show ?thesis
      by (auto simp: on_press_def WebOsButton_on_press_def command_eq lower_command_string
            ext_call_eq except_OSError_def py_print_def printed_def outcome_def Let_def
            split: sum.splits exn.splits)
  qed
qed

theorem C7_witness:
  "button_base (cls (WebOsButton_init PowerOff)) \<noteq> ApplicationControl \<and>
   control working (WebOsButton_init PowerOff) boot =
     (Inr \<lparr>ident = 0, ckind = SystemControl, client = 7\<rparr>,
      \<lparr>cls = PowerOff, control_attr = Some \<lparr>ident = 0, ckind = SystemControl, client = 7\<rparr>\<rparr>,
      \<lparr>world = 2,
       trace = [(AdapterCreate ''/home/pi/.lgtv.yaml'' ''living_room'', None),
                (ControlInit SystemControl 7, None)],
       next_ident = 1\<rparr>) \<and>
   trace (snd (snd (on_press working (WebOsButton_init PowerOff) boot))) =
     [(AdapterCreate ''/home/pi/.lgtv.yaml'' ''living_room'', None),
      (ControlInit SystemControl 7, None),
      (CallMethod \<lparr>ident = 0, ckind = SystemControl, client = 7\<rparr> ''power_off'' [], None)]"
proof -
  have h: "button_base (cls (WebOsButton_init PowerOff)) \<noteq> ApplicationControl"
    by (simp add: WebOsButton_init_def)
  have c: "control working (WebOsButton_init PowerOff) boot =
     (Inr \<lparr>ident = 0, ckind = SystemControl, client = 7\<rparr>,
      \<lparr>cls = PowerOff, control_attr = Some \<lparr>ident = 0, ckind = SystemControl, client = 7\<rparr>\<rparr>,
      \<lparr>world = 2,
       trace = [(AdapterCreate ''/home/pi/.lgtv.yaml'' ''living_room'', None),
                (ControlInit SystemControl 7, None)],
       next_ident = 1\<rparr>)"
    by (simp add: eval_defs)
  have w: "fst (call_method working \<lparr>ident = 0, ckind = SystemControl, client = 7\<rparr> ''power_off'' [] 2) = Inr ()"
    by (simp add: working_def tick_def)
  have p: "on_press working (WebOsButton_init PowerOff) boot =
     (fst (on_press working (WebOsButton_init PowerOff) boot),
      fst (snd (on_press working (WebOsButton_init PowerOff) boot)),
      snd (snd (on_press working (WebOsButton_init PowerOff) boot)))"
    by simp
  note t = C7_dispatch_invokes_command_method [OF h p]
  from t have n: "command_string PowerOff = ''power_off''" by simp
  from t c w h n show ?thesis
    by (simp add: WebOsButton_init_def outcome_def printed_def Let_def)
qed

text \<open>
  Claim C3: for every application button and every activation, dispatch calls
  \<^verbatim>\<open>launch\<close> with a descriptor whose \<^verbatim>\<open>id\<close> field is the command string of
  the button; the \<^verbatim>\<open>SettingsApp\<close> button launches with
  \<^verbatim>\<open>{'id': 'com.palm.app.settings'}\<close>. After the control has been resolved, that
  call is the only one made (followed by the printed line when it raised an
  \<^verbatim>\<open>OSError\<close>); when the control cannot be resolved nothing is launched.
\<close>

theorem C3_launch_descriptor_is_command:
  assumes "button_base (cls b) = ApplicationControl"
    and "on_press ext b s = (r, b2, s2)"
  shows "(case control ext b s of
            (Inl e, b1, s1) \<Rightarrow> trace s2 = trace s1 @ printed (Some e)
          | (Inr c, b1, s1) \<Rightarrow>
              (let d = Application [(''id'', PyStr (command_string (cls b)))];
                   out = outcome (fst (launch ext c d (world s1)))
               in trace s2 = trace s1 @ (Launch c d, out) # printed out))
         \<and> command_string SettingsApp = ''com.palm.app.settings''"
proof (cases "control ext b s")
  case (fields r1 b1 s1)
  have c: "cls b1 = cls b" using control_cls fields by blast
  have n: "command_string SettingsApp = ''com.palm.app.settings''"
    by (simp add: command_string_def command_def)
  show ?thesis
  proof (cases r1)
    case (Inl e)
    with fields assms n show ?thesis
      by (cases e)
        (auto simp: on_press_def ApplicationButton_on_press_def except_OSError_def py_print_def
           printed_def)
  next
    case (Inr cc)
    with fields assms c n show ?thesis
      by (auto simp: on_press_def ApplicationButton_on_press_def command_eq ext_call_eq
            except_OSError_def py_print_def printed_def outcome_def Let_def
            split: sum.splits exn.splits)
  qed
qed

theorem C3_witness:
  "button_base (cls (WebOsButton_init SettingsApp)) = ApplicationControl \<and>
   control working (WebOsButton_init SettingsApp) boot =
     (Inr \<lparr>ident = 0, ckind = ApplicationControl, client = 7\<rparr>,
      \<lparr>cls = SettingsApp,
       control_attr = Some \<lparr>ident = 0, ckind = ApplicationControl, client = 7\<rparr>\<rparr>,
      \<lparr>world = 2,
       trace = [(AdapterCreate ''/home/pi/.lgtv.yaml'' ''living_room'', None),
                (ControlInit ApplicationControl 7, None)],
       next_ident = 1\<rparr>) \<and>
   trace (snd (snd (on_press working (WebOsButton_init SettingsApp) boot))) =
     [(AdapterCreate ''/home/pi/.lgtv.yaml'' ''living_room'', None),
      (ControlInit ApplicationControl 7, None),
      (Launch \<lparr>ident = 0, ckind = ApplicationControl, client = 7\<rparr>
         (Application [(''id'', PyStr ''com.palm.app.settings'')]), None)]"
proof -
  have h: "button_base (cls (WebOsButton_init SettingsApp)) = ApplicationControl"
    by (simp add: WebOsButton_init_def)
  have c: "control working (WebOsButton_init SettingsApp) boot =
     (Inr \<lparr>ident = 0, ckind = ApplicationControl, client = 7\<rparr>,
      \<lparr>cls = SettingsApp,
       control_attr = Some \<lparr>ident = 0, ckind = ApplicationControl, client = 7\<rparr>\<rparr>,
      \<lparr>world = 2,
       trace = [(AdapterCreate ''/home/pi/.lgtv.yaml'' ''living_room'', None),
                (ControlInit ApplicationControl 7, None)],
       next_ident = 1\<rparr>)"
    by (simp add: eval_defs)
  have w: "fst (launch working \<lparr>ident = 0, ckind = ApplicationControl, client = 7\<rparr>
             (Application [(''id'', PyStr ''com.palm.app.settings'')]) 2) = Inr ()"
    by (simp add: working_def tick_def)
  have p: "on_press working (WebOsButton_init SettingsApp) boot =
     (fst (on_press working (WebOsButton_init SettingsApp) boot),
      fst (snd (on_press working (WebOsButton_init SettingsApp) boot)),
      snd (snd (on_press working (WebOsButton_init SettingsApp) boot)))"
    by simp
  note t = C3_launch_descriptor_is_command [OF h p]
  from t have n: "command_string SettingsApp = ''com.palm.app.settings''" by simp
  from t c w h n show ?thesis
    by (simp add: WebOsButton_init_def outcome_def printed_def Let_def)
qed

text \<open>
  Claim C6: an activation of the power-on button never calls the television control
  protocol client (no \<^verbatim>\<open>adapter.create\<close>, no control). It looks up the link-layer
  address of the configured host and then sends a wake packet to the address the lookup
  returned, in that order (a lookup that raises ends the activation), and nothing is
  kept between presses: the widgets are unchanged, and the activation starts with the
  lookup in whatever state it runs.
\<close>

theorem C6_power_on_resolves_then_wakes:
  assumes "i < length ws" and "ws ! i = PowerOn st" and "press ext i ws s = (r, ws', s')"
  shows "ws' = ws \<and>
         (let g = get_mac_address ext (host st) (world s) in
            trace s' = trace s @ (GetMacAddress (host st), outcome (fst g)) #
              (case fst g of
                 Inl e \<Rightarrow> []
               | Inr mac \<Rightarrow>
                   [(SendMagicPacket mac, outcome (fst (send_magic_packet ext mac (snd g))))])) \<and>
         (\<forall>ev \<in> set (drop (length (trace s)) (trace s')). \<not> is_tv_client_call (fst ev))"
  using assms
  by (auto simp: press_def PowerOn_on_press_def ext_call_eq Let_def split: sum.splits prod.splits)

theorem C6_witness:
  "(0::nat) < length [PowerOn \<lparr>host = ''192.168.1.50''\<rparr>, WebOs (WebOsButton_init PowerOff)] \<and>
   [PowerOn \<lparr>host = ''192.168.1.50''\<rparr>, WebOs (WebOsButton_init PowerOff)] ! 0 =
     PowerOn \<lparr>host = ''192.168.1.50''\<rparr> \<and>
   press working 0 [PowerOn \<lparr>host = ''192.168.1.50''\<rparr>, WebOs (WebOsButton_init PowerOff)] boot =
     (Inr (), [PowerOn \<lparr>host = ''192.168.1.50''\<rparr>, WebOs (WebOsButton_init PowerOff)],
      \<lparr>world = 2,
       trace = [(GetMacAddress ''192.168.1.50'', None),
                (SendMagicPacket (Some ''a0:b1:c2:d3:e4:f5''), None)],
       next_ident = 0\<rparr>) \<and>
   trace (snd (snd (run working [0, 0]
       [PowerOn \<lparr>host = ''192.168.1.50''\<rparr>, WebOs (WebOsButton_init PowerOff)] boot))) =
     [(GetMacAddress ''192.168.1.50'', None),
      (SendMagicPacket (Some ''a0:b1:c2:d3:e4:f5''), None),
      (GetMacAddress ''192.168.1.50'', None),
      (SendMagicPacket (Some ''a0:b1:c2:d3:e4:f5''), None)]"
proof -
  have l: "(0::nat) < length [PowerOn \<lparr>host = ''192.168.1.50''\<rparr>, WebOs (WebOsButton_init PowerOff)]"
    and w: "[PowerOn \<lparr>host = ''192.168.1.50''\<rparr>, WebOs (WebOsButton_init PowerOff)] ! 0 =
              PowerOn \<lparr>host = ''192.168.1.50''\<rparr>"
    by simp_all
  have p: "press working 0 [PowerOn \<lparr>host = ''192.168.1.50''\<rparr>, WebOs (WebOsButton_init PowerOff)] boot =
     (Inr (), [PowerOn \<lparr>host = ''192.168.1.50''\<rparr>, WebOs (WebOsButton_init PowerOff)],
      \<lparr>world = 2,
       trace = [(GetMacAddress ''192.168.1.50'', None),
                (SendMagicPacket (Some ''a0:b1:c2:d3:e4:f5''), None)],
       next_ident = 0\<rparr>)"
    by (simp add: eval_defs)
  have r: "trace (snd (snd (run working [0, 0]
       [PowerOn \<lparr>host = ''192.168.1.50''\<rparr>, WebOs (WebOsButton_init PowerOff)] boot))) =
     [(GetMacAddress ''192.168.1.50'', None),
      (SendMagicPacket (Some ''a0:b1:c2:d3:e4:f5''), None),
      (GetMacAddress ''192.168.1.50'', None),
      (SendMagicPacket (Some ''a0:b1:c2:d3:e4:f5''), None)]"
    by (simp add: eval_defs)
  from C6_power_on_resolves_then_wakes [OF l w p] l w p r show ?thesis
    by simp
qed

subsection \<open>The command of the Play button\<close>

text \<open>
  Claim C8: the \<^verbatim>\<open>command\<close> property of the \<^verbatim>\<open>Play\<close> button returns the
  string \<^verbatim>\<open>play\<close> and has no other effect: the statement \<^verbatim>\<open>.0\<close> before the
  \<^verbatim>\<open>return\<close> is a float literal, whose evaluation neither raises nor changes the
  state, so that the property is the body \<^verbatim>\<open>return 'play'\<close>.
\<close>

theorem C8_play_command:
  "command Play s = (Inr (PyStr ''play''), s) \<and>
   command Play s = exec_body [Return (StrLit ''play'')] s"
  by (simp add: command_def)

theorem C8_witness:
  "command Play boot = (Inr (PyStr ''play''), boot) \<and>
   command Play boot = exec_body [Return (StrLit ''play'')] boot"
  using C8_play_command [of boot] by simp

subsection \<open>The configuration path and the device name\<close>

text \<open>
  Claim C9: every acquisition in the program uses the same configuration path (the home
  directory of the user joined with \<^verbatim>\<open>.lgtv.yaml\<close>) and the same device name
  \<^verbatim>\<open>living_room\<close>. In a session that starts with \<^verbatim>\<open>build\<close> and activates any
  widgets in any order, every \<^verbatim>\<open>adapter.create\<close> call (all four button kinds), the
  \<^verbatim>\<open>settings.load\<close> call and the \<^verbatim>\<open>settings.get\<close> call for the power-on
  button take that path and that name.
\<close>

theorem C9_fixed_path_and_device:
  assumes "trace s = []" and "TouchRemoteApp_run ext js s = (r, ws, s')"
  shows "(\<forall>ev \<in> set (trace s'). fixed_args ext (fst ev)) \<and>
         config_path ext = (if home ext = ''/'' then [] else home ext) @ ''/.lgtv.yaml''"
proof -
  obtain rb sb where b: "build ext s = (rb, sb)"
    by (cases "build ext s") auto
  from assms(1) have i: "list_all (\<lambda>ev. fixed_args ext (fst ev)) (trace s)" by simp
  note fb = fixed_build [OF i b]
  have "list_all (\<lambda>ev. fixed_args ext (fst ev)) (trace s')"
  proof (cases rb)
    case (Inl e)
    with assms(2) b fb show ?thesis by (simp add: TouchRemoteApp_run_def)
  next
    case (Inr ws0)
    with assms(2) b have "run ext js ws0 sb = (r, ws, s')" by (simp add: TouchRemoteApp_run_def)
    from fixed_run [OF fb this] show ?thesis .
  qed
  then show ?thesis by (simp add: config_path_def list_all_iff)
qed

theorem C9_witness:
  "trace boot = [] \<and>
   trace (snd (snd (TouchRemoteApp_run working [0, 1, 10, 16] boot))) =
     [(SettingsLoad ''/home/pi/.lgtv.yaml'', None),
      (SettingsGet ''living_room'', None),
      (GetMacAddress ''192.168.1.50'', None),
      (SendMagicPacket (Some ''a0:b1:c2:d3:e4:f5''), None),
      (AdapterCreate ''/home/pi/.lgtv.yaml'' ''living_room'', None),
      (ControlInit SystemControl 7, None),
      (CallMethod \<lparr>ident = 0, ckind = SystemControl, client = 7\<rparr> ''power_off'' [], None),
      (AdapterCreate ''/home/pi/.lgtv.yaml'' ''living_room'', None),
      (ControlInit InputControl 7, None),
      (ConnectInput \<lparr>ident = 1, ckind = InputControl, client = 7\<rparr>, None),
      (CallMethod \<lparr>ident = 1, ckind = InputControl, client = 7\<rparr> ''home'' [], None),
      (AdapterCreate ''/home/pi/.lgtv.yaml'' ''living_room'', None),
      (ControlInit ApplicationControl 7, None),
      (Launch \<lparr>ident = 2, ckind = ApplicationControl, client = 7\<rparr>
         (Application [(''id'', PyStr ''com.palm.app.settings'')]), None)] \<and>
   list_all (\<lambda>ev. fixed_args working (fst ev))
     (trace (snd (snd (TouchRemoteApp_run working [0, 1, 10, 16] boot)))) \<and>
   config_path working = ''/home/pi/.lgtv.yaml''"
proof -
  have e: "trace boot = []"
    by (simp add: boot_def)
  have p: "TouchRemoteApp_run working [0, 1, 10, 16] boot =
     (fst (TouchRemoteApp_run working [0, 1, 10, 16] boot),
      fst (snd (TouchRemoteApp_run working [0, 1, 10, 16] boot)),
      snd (snd (TouchRemoteApp_run working [0, 1, 10, 16] boot)))"
    by simp
  have t: "trace (snd (snd (TouchRemoteApp_run working [0, 1, 10, 16] boot))) =
     [(SettingsLoad ''/home/pi/.lgtv.yaml'', None),
      (SettingsGet ''living_room'', None),
      (GetMacAddress ''192.168.1.50'', None),
      (SendMagicPacket (Some ''a0:b1:c2:d3:e4:f5''), None),
      (AdapterCreate ''/home/pi/.lgtv.yaml'' ''living_room'', None),
      (ControlInit SystemControl 7, None),
      (CallMethod \<lparr>ident = 0, ckind = SystemControl, client = 7\<rparr> ''power_off'' [], None),
      (AdapterCreate ''/home/pi/.lgtv.yaml'' ''living_room'', None),
      (ControlInit InputControl 7, None),
      (ConnectInput \<lparr>ident = 1, ckind = InputControl, client = 7\<rparr>, None),
      (CallMethod \<lparr>ident = 1, ckind = InputControl, client = 7\<rparr> ''home'' [], None),
      (AdapterCreate ''/home/pi/.lgtv.yaml'' ''living_room'', None),
      (ControlInit ApplicationControl 7, None),
      (Launch \<lparr>ident = 2, ckind = ApplicationControl, client = 7\<rparr>
         (Application [(''id'', PyStr ''com.palm.app.settings'')]), None)]"
    by (simp add: eval_defs)
  have c: "config_path working = ''/home/pi/.lgtv.yaml''"
    by (simp add: config_path_def working_def)
  from C9_fixed_path_and_device [OF e p] have
    "list_all (\<lambda>ev. fixed_args working (fst ev))
       (trace (snd (snd (TouchRemoteApp_run working [0, 1, 10, 16] boot))))"
    by (simp add: list_all_iff)
  with e t c show ?thesis by simp
qed

end
